theory Spec2Isabelle
  imports Complex_Main "HOL-Library.Char_ord" "HOL-Library.List_Lexorder"
begin

section \<open>The OpenAI adapter of go-llmbridge (package openai)\<close>

text \<open>
  A shallow embedding of the request/response adapter: the chat-completion operations,
  image generation, text-to-speech and the speech-to-text family, together with the
  client configuration they read.

  Conventions of the embedding.
  \<^item> A Go \<open>string\<close> is a \<open>string\<close>; a \<open>float64\<close> is a \<open>rat\<close> (the finite values
    only: NaN and the infinities are not represented); an \<open>int\<close> is an \<open>int\<close>.
  \<^item> A pointer argument is an \<open>option\<close>, \<open>None\<close> being \<open>nil\<close>. The one pointer the code
    writes through (the custom chat request) is an address into an explicit heap.
  \<^item> An operation returns a \<open>result\<close>: the typed value, the returned \<open>error\<close>, or a
    run-time panic. Go's errors are \<open>errors.New\<close> of a message; the model keeps the message
    of the source and tags it with the class of the specification's taxonomy.
  \<^item> The network is a parameter (\<open>httpDo\<close>); every call of \<open>client.Do\<close> is appended to a
    log of exchanges, with the HTTP client that performed it.
  \<^item> The bytes produced by \<open>json.Marshal\<close> are represented by the JSON tree they encode,
    the multipart body by the list of its parts.
\<close>

subsection \<open>Errors, panics and results\<close>

datatype error =
    MissingArgument string
  | InvalidArgument string
  | OutOfRange string
  | AuthError string
  | IOError string
  | TransportError string
  | DecodeError string
  | ProviderError string
  | RequestError string

datatype panic = NilDereference | IndexOutOfRange

datatype 'a result = Returned 'a | Failed error | Panicked panic

subsection \<open>JSON trees and dynamically typed Go values\<close>

datatype json =
    JNull
  | JBool bool
  | JNum rat
  | JStr string
  | JArr "json list"
  | JObj "(string \<times> json) list"

text \<open>
  What an \<open>interface{}\<close> can hold, as far as \<open>json.Marshal\<close> tells values apart.
  \<open>GOpaque\<close> stands for every value \<open>json.Marshal\<close> rejects (a channel, a function, a
  complex number, a non-finite float). A struct is the list of its members in the order
  of its fields; a Go map is an association list with distinct keys, in no particular
  order. A nil map or slice is not told apart from an empty one.
\<close>

datatype gval =
    GNil
  | GBool bool
  | GNum rat
  | GStr string
  | GSlice "gval list"
  | GStruct "(string \<times> gval) list"
  | GMap "(string \<times> gval) list"
  | GOpaque

text \<open>
  \<open>json.Marshal\<close> on a dynamic value; \<open>None\<close> is its error. The members of a struct are
  emitted in the order of its fields, the members of a map sorted by key (strings compare
  byte by byte, as \<open>char list\<close> does under the lexicographic order).
\<close>

fun jsonMarshal :: "gval \<Rightarrow> json option"
  and jsonMarshalList :: "gval list \<Rightarrow> json list option"
  and jsonMarshalMembers :: "(string \<times> gval) list \<Rightarrow> (string \<times> json) list option" where
  "jsonMarshal GNil = Some JNull"
| "jsonMarshal (GBool b) = Some (JBool b)"
| "jsonMarshal (GNum n) = Some (JNum n)"
| "jsonMarshal (GStr s) = Some (JStr s)"
| "jsonMarshal (GSlice vs) = map_option JArr (jsonMarshalList vs)"
| "jsonMarshal (GStruct fs) = map_option JObj (jsonMarshalMembers fs)"
| "jsonMarshal (GMap kvs) = map_option (\<lambda>js. JObj (sort_key fst js)) (jsonMarshalMembers kvs)"
| "jsonMarshal GOpaque = None"
| "jsonMarshalList [] = Some []"
| "jsonMarshalList (v # vs) =
     (case jsonMarshal v of None \<Rightarrow> None
      | Some j \<Rightarrow> (case jsonMarshalList vs of None \<Rightarrow> None | Some js \<Rightarrow> Some (j # js)))"
| "jsonMarshalMembers [] = Some []"
| "jsonMarshalMembers (kv # kvs) =
     (case jsonMarshal (snd kv) of None \<Rightarrow> None
      | Some j \<Rightarrow>
         (case jsonMarshalMembers kvs of None \<Rightarrow> None | Some js \<Rightarrow> Some ((fst kv, j) # js)))"

text \<open>The member of a JSON object with a given name (the first, as a decoder reads it).\<close>

fun jsonField :: "string \<Rightarrow> json \<Rightarrow> json option" where
  "jsonField k (JObj kvs) = map_of kvs k"
| "jsonField k _ = None"

subsection \<open>HTTP: clients, requests, responses, the log of exchanges\<close>

text \<open>\<open>http.Client\<close>: only its \<open>Timeout\<close> (in seconds; 0 means no timeout) is modelled.\<close>

record http_Client =
  Timeout :: nat

datatype form_part =
    FormFile string string "string"
  | FormField string string

datatype payload = JsonBody json | MultipartBody "form_part list"

record http_Request =
  rq_Method :: string
  rq_URL :: string
  rq_Header :: "(string \<times> string) list"
  rq_Body :: payload

text \<open>An \<open>io.Reader\<close> read to its end: the bytes, or the error of the read.\<close>

type_synonym reader = "string + string"

record http_Response =
  StatusCode :: int
  Status :: string
  Body :: reader

record exchange =
  ex_client :: http_Client
  ex_request :: http_Request

subsection \<open>The environment: what the adapter calls and does not define\<close>

text \<open>
  \<^item> \<open>httpDo\<close>: \<open>(*http.Client).Do\<close>, the network; \<open>Inl\<close> is its error.
  \<^item> \<open>newRequestOk\<close>: whether \<open>http.NewRequest\<close> accepts a URL.
  \<^item> \<open>osOpen\<close>: \<open>os.Open\<close> on a path.
  \<^item> \<open>decode...\<close>: \<open>encoding/json\<close> decoding into each response type; \<open>Inl\<close> is its error.
  \<^item> \<open>formatFloat\<close>: \<open>strconv.FormatFloat(x, 'f', 6, 64)\<close>.
  \<^item> \<open>base64Std\<close>: \<open>base64.StdEncoding.EncodeToString\<close>.
\<close>

record OAAudioDataResponse =
  au_Id :: string
  au_ExpiresAt :: int
  au_Data :: string
  au_Transcript :: string

record OAMessage =
  msg_Role :: string
  msg_Content :: string
  msg_Refusal :: string
  msg_Audio :: OAAudioDataResponse

record OAChoice =
  ch_Index :: int
  ch_Message :: OAMessage
  ch_Logprobs :: "string option"
  ch_FinishReason :: string

record OAUsage =
  us_PromptTokens :: int
  us_CompletionTokens :: int
  us_TotalTokens :: int
  us_ReasoningTokens :: int

record OAChatCompletionResp =
  cc_ID :: string
  cc_Object :: string
  cc_Created :: int
  cc_Model :: string
  cc_SystemFingerprint :: string
  cc_Choices :: "OAChoice list"
  cc_Usage :: OAUsage

record OAImageGeneratorDallEData =
  imd_Url :: string
  imd_B64JSON :: string

record OAImageGeneratorDallEResp =
  imr_Created :: int
  imr_Data :: "OAImageGeneratorDallEData list"

record OATextToSpeechResp =
  FormatAudio :: string
  B64JSON :: string

record OASTTError =
  err_Message :: string
  err_Type :: string
  err_Param :: string
  err_Code :: int

record OATranscriptionDefaultResp =
  td_Text :: string
  td_Error :: OASTTError

record wordTimestampResp =
  wt_Word :: string
  wt_Start :: rat
  wt_End :: rat

record OATranscriptionWordTimestampResp =
  tw_Task :: string
  tw_Language :: string
  tw_Duration :: rat
  tw_Text :: string
  tw_Words :: "wordTimestampResp list"
  tw_Error :: OASTTError

record segmentResp =
  sg_Id :: int
  sg_Seek :: int
  sg_Start :: rat
  sg_End :: rat
  sg_Text :: string
  sg_Tokens :: "int list"
  sg_Temperature :: rat
  sg_AvgLogprob :: rat
  sg_CompressionRatio :: rat
  sg_NoSpeechProb :: rat

record OATranscriptionSegmentResp =
  ts_Task :: string
  ts_Language :: string
  ts_Duration :: rat
  ts_Text :: string
  ts_Segments :: "segmentResp list"
  ts_Error :: OASTTError

record env =
  httpDo :: "http_Client \<Rightarrow> http_Request \<Rightarrow> string + http_Response"
  newRequestOk :: "string \<Rightarrow> bool"
  osOpen :: "string \<Rightarrow> string + reader"
  decodeChat :: "string \<Rightarrow> string + OAChatCompletionResp"
  decodeImage :: "string \<Rightarrow> string + OAImageGeneratorDallEResp"
  decodeDefault :: "string \<Rightarrow> string + OATranscriptionDefaultResp"
  decodeWord :: "string \<Rightarrow> string + OATranscriptionWordTimestampResp"
  decodeSegment :: "string \<Rightarrow> string + OATranscriptionSegmentResp"
  formatFloat :: "rat \<Rightarrow> string"
  base64Std :: "string \<Rightarrow> string"

subsection \<open>Constants, configuration and the client (openai.interfaces.go)\<close>

definition OAUrlBase :: string where
  "OAUrlBase = ''https://api.openai.com/v1''"

definition OAUrlTextCompletions :: string where
  "OAUrlTextCompletions = OAUrlBase @ ''/chat/completions''"

definition OAUrlImageGenerationsDallE :: string where
  "OAUrlImageGenerationsDallE = OAUrlBase @ ''/images/generations''"

definition OAUrlTextToSpeech :: string where
  "OAUrlTextToSpeech = OAUrlBase @ ''/audio/speech''"

definition OAUrlSTTTranscription :: string where
  "OAUrlSTTTranscription = OAUrlBase @ ''/audio/transcriptions''"

definition OAUrlSTTTranslation :: string where
  "OAUrlSTTTranslation = OAUrlBase @ ''/audio/translations''"

definition OABaseModel :: string where
  "OABaseModel = ''gpt-4o-mini''"

record Config =
  httpClient :: http_Client
  openAIBaseUrl :: string
  openAIModel :: string

definition DefaultConfig :: Config where
  "DefaultConfig =
     \<lparr>httpClient = \<lparr>Timeout = 60\<rparr>,
      openAIBaseUrl = OAUrlTextCompletions,
      openAIModel = OABaseModel\<rparr>"

record openaiAPI =
  apiKey :: string
  openaiOrganization :: string
  openaiProject :: string
  config :: Config

type_synonym ClientOption = "Config \<Rightarrow> Config"

definition WithHTTPClient :: "http_Client \<Rightarrow> ClientOption" where
  "WithHTTPClient hc c = c\<lparr>httpClient := hc\<rparr>"

definition WithBaseUrl :: "string \<Rightarrow> ClientOption" where
  "WithBaseUrl baseUrl c = c\<lparr>openAIBaseUrl := baseUrl\<rparr>"

definition WithModel :: "string \<Rightarrow> ClientOption" where
  "WithModel model c = c\<lparr>openAIModel := model\<rparr>"

definition New :: "string \<Rightarrow> string \<Rightarrow> string \<Rightarrow> ClientOption list \<Rightarrow> error + openaiAPI" where
  "New key org proj opts =
     (if key = '''' then Inl (AuthError ''API Key is empty'')
      else Inr \<lparr>apiKey = key, openaiOrganization = org, openaiProject = proj,
                config = fold (\<lambda>opt cfg. opt cfg) opts DefaultConfig\<rparr>)"

text \<open>The two headers every request carries.\<close>

definition requestHeader :: "string \<Rightarrow> string \<Rightarrow> (string \<times> string) list" where
  "requestHeader contentType key =
     [(''Content-Type'', contentType), (''Authorization'', ''Bearer '' @ key)]"

subsection \<open>Text-to-speech (OpenAITextToSpeech)\<close>

record OAReqTextToSpeech =
  tts_Model :: string
  tts_Input :: string
  tts_Voice :: string
  tts_ResponseFormat :: string
  tts_Speed :: "rat option"

text \<open>
  The block of the function headed \<open>input checker request\<close>: five \<open>if\<close> statements in
  sequence, the first that applies returns its error. \<open>None\<close>: all five fall through.
  The voice list and the response-format test are those of the source, character for
  character (\<open>shimer\<close>; the six equalities joined by \<open>&&\<close>).
\<close>

definition ttsInputChecker :: "OAReqTextToSpeech \<Rightarrow> error option" where
  "ttsInputChecker r =
     (if tts_Model r = '''' \<or> (tts_Model r \<noteq> ''tts-1'' \<and> tts_Model r \<noteq> ''tts-1-hd'')
      then Some (InvalidArgument ''Model must be gpt-3 or davinci'')
      else if tts_Input r = ''''
      then Some (InvalidArgument ''Input text must be provided'')
      else if tts_Voice r \<noteq> '''' \<and>
              (tts_Voice r \<noteq> ''alloy'' \<and> tts_Voice r \<noteq> ''echo'' \<and> tts_Voice r \<noteq> ''fable'' \<and>
               tts_Voice r \<noteq> ''onyx'' \<and> tts_Voice r \<noteq> ''nova'' \<and> tts_Voice r \<noteq> ''shimer'')
      then Some (InvalidArgument ''Voice must be alloy, echo, fable, onyx, nova, or shimmer'')
      else if tts_ResponseFormat r \<noteq> '''' \<and>
              (tts_ResponseFormat r = ''mp3'' \<and> tts_ResponseFormat r = ''opus'' \<and>
               tts_ResponseFormat r = ''aac'' \<and> tts_ResponseFormat r = ''flac'' \<and>
               tts_ResponseFormat r = ''wav'' \<and> tts_ResponseFormat r = ''pcm'')
      then Some (InvalidArgument ''ResponseFormat must be mp3, opus, aac, flac, wav, or pcm'')
      else if (case tts_Speed r of None \<Rightarrow> False | Some s \<Rightarrow> s < 0.25 \<or> s > 4.0)
      then Some (OutOfRange ''Speed must be between 0.25 and 4.0'')
      else None)"

text \<open>\<open>json.Marshal(req_body)\<close>: four string members, \<open>speed\<close> only when set (\<open>omitempty\<close>).
  On this struct it rejects only a non-finite speed, which \<open>rat\<close> does not represent, so
  the model has no branch for its error.\<close>

definition ttsMarshal :: "OAReqTextToSpeech \<Rightarrow> json" where
  "ttsMarshal r =
     JObj ([(''model'', JStr (tts_Model r)), (''input'', JStr (tts_Input r)),
            (''voice'', JStr (tts_Voice r)), (''response_format'', JStr (tts_ResponseFormat r))] @
           (case tts_Speed r of None \<Rightarrow> [] | Some s \<Rightarrow> [(''speed'', JNum s)]))"

definition OpenAITextToSpeech ::
  "env \<Rightarrow> openaiAPI \<Rightarrow> OAReqTextToSpeech option \<Rightarrow> exchange list
     \<Rightarrow> OATextToSpeechResp result \<times> exchange list" where
  "OpenAITextToSpeech e c req_body lg =
     (case req_body of
        None \<Rightarrow> (Panicked NilDereference, lg)
      | Some r \<Rightarrow>
         (case ttsInputChecker r of
            Some err \<Rightarrow> (Failed err, lg)
          | None \<Rightarrow>
             if apiKey c = '''' then (Failed (AuthError ''API Key is empty''), lg)
             else if \<not> newRequestOk e OAUrlTextToSpeech
             then (Failed (RequestError ''Failed to create request''), lg)
             else
               let req = \<lparr>rq_Method = ''POST'', rq_URL = OAUrlTextToSpeech,
                          rq_Header = requestHeader ''application/json'' (apiKey c),
                          rq_Body = JsonBody (ttsMarshal r)\<rparr>;
                   client = httpClient (config c);
                   lg' = lg @ [\<lparr>ex_client = client, ex_request = req\<rparr>]
               in (case httpDo e client req of
                     Inl err \<Rightarrow> (Failed (TransportError (''Failed to send request: '' @ err)), lg')
                   | Inr resp \<Rightarrow>
                      if StatusCode resp \<noteq> 200
                      then (Failed (TransportError (''Failed to send request: '' @ Status resp)), lg')
                      else (case Body resp of
                              Inl err \<Rightarrow>
                                (Failed (TransportError (''Failed to read response body3: '' @ err)), lg')
                            | Inr fileBytes \<Rightarrow>
                                (Returned
                                   \<lparr>FormatAudio =
                                      (if tts_ResponseFormat r = '''' then ''.mp3''
                                       else ''.'' @ tts_ResponseFormat r),
                                    B64JSON = base64Std e fileBytes\<rparr>, lg')))))"

subsection \<open>Image generation (OpenAICreateImageDallE)\<close>

record OAReqImageGeneratorDallE =
  img_Prompt :: string
  img_Model :: string
  img_N :: "int option"
  img_Quality :: "string option"
  img_ResponseFormat :: "string option"
  img_Size :: "string option"
  img_Style :: "string option"
  img_User :: "string option"

text \<open>The \<open>input checker request\<close> block: seven \<open>if\<close> statements in the source's order.\<close>

definition imageInputChecker :: "OAReqImageGeneratorDallE \<Rightarrow> error option" where
  "imageInputChecker r =
     (if img_Model r = '''' \<or> (img_Model r \<noteq> ''dall-e-2'' \<and> img_Model r \<noteq> ''dall-e-3'')
      then Some (InvalidArgument ''Model must be dall-e-2 or dall-e-3'')
      else if (case img_N r of None \<Rightarrow> False | Some n \<Rightarrow> n < 1 \<or> n > 10)
      then Some (OutOfRange ''N must be between 1 and 10'')
      else if img_Model r \<noteq> ''dall-e-3'' \<and> img_Quality r \<noteq> None
      then Some (InvalidArgument ''Quality is only supported for dall-e-3 model'')
      else if (case img_Quality r of None \<Rightarrow> False | Some q \<Rightarrow> q \<noteq> ''standard'' \<and> q \<noteq> ''hd'')
      then Some (InvalidArgument ''Quality must be standard or hd'')
      else if img_Model r \<noteq> ''dall-e-3'' \<and> img_Style r \<noteq> None
      then Some (InvalidArgument ''Style is only supported for dall-e-3 model'')
      else if (case img_Style r of None \<Rightarrow> False | Some s \<Rightarrow> s \<noteq> ''vivid'' \<and> s \<noteq> ''natural'')
      then Some (InvalidArgument ''Style must be vivid or natural'')
      else if (case img_ResponseFormat r of None \<Rightarrow> False
               | Some f \<Rightarrow> f \<noteq> ''url'' \<and> f \<noteq> ''b64_json'')
      then Some (InvalidArgument ''ResponseFormat must be url or b64_json'')
      else None)"

definition optMember :: "string \<Rightarrow> ('a \<Rightarrow> json) \<Rightarrow> 'a option \<Rightarrow> (string \<times> json) list" where
  "optMember k f v = (case v of None \<Rightarrow> [] | Some x \<Rightarrow> [(k, f x)])"

text \<open>\<open>json.Marshal(req_body)\<close>: every optional member is a pointer with \<open>omitempty\<close>.
  It cannot fail on strings and an integer, so the model has no branch for its error.\<close>

definition imageMarshal :: "OAReqImageGeneratorDallE \<Rightarrow> json" where
  "imageMarshal r =
     JObj ([(''prompt'', JStr (img_Prompt r)), (''model'', JStr (img_Model r))] @
           optMember ''n'' (\<lambda>n. JNum (of_int n)) (img_N r) @
           optMember ''quality'' JStr (img_Quality r) @
           optMember ''response_format'' JStr (img_ResponseFormat r) @
           optMember ''size'' JStr (img_Size r) @
           optMember ''style'' JStr (img_Style r) @
           optMember ''user'' JStr (img_User r))"

definition OpenAICreateImageDallE ::
  "env \<Rightarrow> openaiAPI \<Rightarrow> OAReqImageGeneratorDallE option \<Rightarrow> exchange list
     \<Rightarrow> OAImageGeneratorDallEResp result \<times> exchange list" where
  "OpenAICreateImageDallE e c req_body lg =
     (case req_body of
        None \<Rightarrow> (Panicked NilDereference, lg)
      | Some r \<Rightarrow>
         (case imageInputChecker r of
            Some err \<Rightarrow> (Failed err, lg)
          | None \<Rightarrow>
             if apiKey c = '''' then (Failed (AuthError ''API Key is empty''), lg)
             else if \<not> newRequestOk e OAUrlImageGenerationsDallE
             then (Failed (RequestError ''Failed to create request''), lg)
             else
               let req = \<lparr>rq_Method = ''POST'', rq_URL = OAUrlImageGenerationsDallE,
                          rq_Header = requestHeader ''application/json'' (apiKey c),
                          rq_Body = JsonBody (imageMarshal r)\<rparr>;
                   client = httpClient (config c);
                   lg' = lg @ [\<lparr>ex_client = client, ex_request = req\<rparr>]
               in (case httpDo e client req of
                     Inl err \<Rightarrow> (Failed (TransportError (''Failed to send request: '' @ err)), lg')
                   | Inr resp \<Rightarrow>
                      if StatusCode resp \<noteq> 200
                      then (Failed (TransportError (''Failed to send request: '' @ Status resp)), lg')
                      else (case Body resp of
                              Inl err \<Rightarrow>
                                (Failed (DecodeError (''Failed to decode response: '' @ err)), lg')
                            | Inr bs \<Rightarrow>
                                (case decodeImage e bs of
                                   Inl err \<Rightarrow>
                                     (Failed (DecodeError (''Failed to decode response: '' @ err)), lg')
                                 | Inr respDataDallE \<Rightarrow> (Returned respDataDallE, lg'))))))"

subsection \<open>Chat completion (OACreateResponseFormat, OpenAISendMessage, OpenAIGetFirstContentDataResp)\<close>

record OAMessageReq =
  mr_Role :: string
  mr_Content :: gval

record OAReqBodyMessageCompletion =
  rb_Messages :: gval
  rb_Model :: string
  rb_Store :: bool
  rb_Metadata :: gval
  rb_FrequencyPenalty :: rat
  rb_LogitBias :: "(string \<times> gval) list"
  rb_Logprobe :: bool
  rb_Modalities :: "string list"
  rb_ResponseFormat :: "(string \<times> gval) list"

definition OACreateResponseFormat :: "string \<Rightarrow> (string \<times> gval) list \<Rightarrow> (string \<times> gval) list" where
  "OACreateResponseFormat jsonName jsonSchema =
     [(''type'', GStr ''json_schema''),
      (''json_schema'', GMap [(''name'', GStr jsonName), (''schema'', GMap jsonSchema)])]"

text \<open>
  The caller's memory. \<open>req_body_custom\<close> is a pointer the function writes through, so the
  structs it may point to live in a heap indexed by address; the state of a call is that
  heap and the log of exchanges.
\<close>

type_synonym addr = nat

record world =
  heap :: "addr \<Rightarrow> OAReqBodyMessageCompletion"
  exlog :: "exchange list"

text \<open>The value \<open>Messages: content\<close> holds: the slice of messages, each a struct of two members.\<close>

definition messagesValue :: "OAMessageReq list \<Rightarrow> gval" where
  "messagesValue msgs =
     GSlice (map (\<lambda>m. GStruct [(''role'', GStr (mr_Role m)), (''content'', mr_Content m)]) msgs)"

text \<open>
  \<open>json.Marshal\<close> of the request struct, member by member in the order of the struct's
  fields; a member tagged \<open>omitempty\<close> is left out when it is false, 0, a nil interface or
  an empty map or slice. \<open>None\<close> when a dynamic value inside cannot be marshalled.
\<close>

definition omitemptyDyn :: "string \<Rightarrow> gval \<Rightarrow> (string \<times> json) list option" where
  "omitemptyDyn k v =
     (if v = GNil then Some [] else map_option (\<lambda>j. [(k, j)]) (jsonMarshal v))"

definition omitemptyMap :: "string \<Rightarrow> (string \<times> gval) list \<Rightarrow> (string \<times> json) list option" where
  "omitemptyMap k kvs =
     (if kvs = [] then Some [] else map_option (\<lambda>j. [(k, j)]) (jsonMarshal (GMap kvs)))"

definition marshalReqBody :: "OAReqBodyMessageCompletion \<Rightarrow> json option" where
  "marshalReqBody r =
     (case jsonMarshal (rb_Messages r) of None \<Rightarrow> None
      | Some jm \<Rightarrow>
     (case omitemptyDyn ''metadata'' (rb_Metadata r) of None \<Rightarrow> None
      | Some md \<Rightarrow>
     (case omitemptyMap ''logit_bias'' (rb_LogitBias r) of None \<Rightarrow> None
      | Some lb \<Rightarrow>
     (case omitemptyMap ''response_format'' (rb_ResponseFormat r) of None \<Rightarrow> None
      | Some rf \<Rightarrow>
         Some (JObj
           ([(''messages'', jm), (''model'', JStr (rb_Model r))] @
            (if rb_Store r then [(''store'', JBool True)] else []) @
            md @
            (if rb_FrequencyPenalty r = 0 then []
             else [(''frequency_penalty'', JNum (rb_FrequencyPenalty r))]) @
            lb @
            (if rb_Logprobe r then [(''logprobe'', JBool True)] else []) @
            (if rb_Modalities r = [] then []
             else [(''modalities'', JArr (map JStr (rb_Modalities r)))]) @
            rf))))))"

text \<open>
  The second half of \<open>OpenAISendMessage\<close>, from \<open>json.Marshal(reqBody)\<close> to the return:
  serialise, build the request for the configured URL, send it through the configured
  client, check the status, decode.
\<close>

definition chatExchange ::
  "env \<Rightarrow> openaiAPI \<Rightarrow> OAReqBodyMessageCompletion \<Rightarrow> world
     \<Rightarrow> OAChatCompletionResp result \<times> world" where
  "chatExchange e c reqBody w =
     (case marshalReqBody reqBody of
        None \<Rightarrow> (Failed (RequestError ''Failed to marshal request body''), w)
      | Some reqBodyJSON \<Rightarrow>
         if \<not> newRequestOk e (openAIBaseUrl (config c))
         then (Failed (RequestError ''Failed to create request''), w)
         else
           let req = \<lparr>rq_Method = ''POST'', rq_URL = openAIBaseUrl (config c),
                      rq_Header = requestHeader ''application/json'' (apiKey c),
                      rq_Body = JsonBody reqBodyJSON\<rparr>;
               client = httpClient (config c);
               w' = w\<lparr>exlog := exlog w @ [\<lparr>ex_client = client, ex_request = req\<rparr>]\<rparr>
           in (case httpDo e client req of
                 Inl err \<Rightarrow> (Failed (TransportError (''Failed to send request: '' @ err)), w')
               | Inr resp \<Rightarrow>
                  if StatusCode resp \<noteq> 200
                  then (Failed (TransportError (''Failed to send request: '' @ Status resp)), w')
                  else (case Body resp of
                          Inl err \<Rightarrow>
                            (Failed (DecodeError (''Failed to decode response: '' @ err)), w')
                        | Inr bs \<Rightarrow>
                            (case decodeChat e bs of
                               Inl err \<Rightarrow>
                                 (Failed (DecodeError (''Failed to decode response: '' @ err)), w')
                             | Inr result \<Rightarrow> (Returned result, w')))))"

text \<open>
  The first half: the four guards, then the request body. The third guard reads
  \<open>req_body_custom.Messages\<close> whenever \<open>with_custom_reqbody\<close> holds, so a nil pointer there
  is a nil dereference; the third and fourth guard exclude each other, hence the one
  branch on \<open>with_custom_reqbody\<close>. In the custom branch the assignment
  \<open>req_body_custom.ResponseFormat = *format_response\<close> goes through the pointer: it is an
  update of the heap.
\<close>

definition OpenAISendMessage ::
  "env \<Rightarrow> openaiAPI \<Rightarrow> OAMessageReq list option \<Rightarrow> bool \<Rightarrow> (string \<times> gval) list option
     \<Rightarrow> bool \<Rightarrow> addr option \<Rightarrow> world \<Rightarrow> OAChatCompletionResp result \<times> world" where
  "OpenAISendMessage e c content with_format_response format_response with_custom_reqbody
       req_body_custom w =
     (if apiKey c = '''' then (Failed (AuthError ''API Key is empty''), w)
      else if with_format_response \<and> format_response = None
      then (Failed (MissingArgument
              ''format_response must be provided when with_format_response is true''), w)
      else if with_custom_reqbody then
        (case req_body_custom of
           None \<Rightarrow> (Panicked NilDereference, w)
         | Some p \<Rightarrow>
            if rb_Messages (heap w p) = GNil
            then (Failed (MissingArgument
                    ''req_body_custom must be provided when with_custom_reqbody is true''), w)
            else
              let w1 = (case format_response of
                          Some fr \<Rightarrow>
                            if with_format_response
                            then w\<lparr>heap := (heap w)(p := (heap w p)\<lparr>rb_ResponseFormat := fr\<rparr>)\<rparr>
                            else w
                        | None \<Rightarrow> w)
              in chatExchange e c (heap w1 p) w1)
      else
        (case content of
           None \<Rightarrow> (Failed (MissingArgument ''content must be provided''), w)
         | Some msgs \<Rightarrow>
            let reqData =
                  \<lparr>rb_Messages = messagesValue msgs,
                   rb_Model = openAIModel (config c),
                   rb_Store = False, rb_Metadata = GNil, rb_FrequencyPenalty = 0,
                   rb_LogitBias = [], rb_Logprobe = False, rb_Modalities = [],
                   rb_ResponseFormat =
                     (case format_response of
                        Some fr \<Rightarrow> if with_format_response then fr else []
                      | None \<Rightarrow> [])\<rparr>
            in chatExchange e c reqData w))"

definition OpenAIGetFirstContentDataResp ::
  "env \<Rightarrow> openaiAPI \<Rightarrow> OAMessageReq list option \<Rightarrow> bool \<Rightarrow> (string \<times> gval) list option
     \<Rightarrow> bool \<Rightarrow> addr option \<Rightarrow> world \<Rightarrow> OAMessage result \<times> world" where
  "OpenAIGetFirstContentDataResp e c content with_format_response format_response
       with_custom_reqbody req_body_custom w =
     (case OpenAISendMessage e c content with_format_response format_response
             with_custom_reqbody req_body_custom w of
        (Failed err, w') \<Rightarrow> (Failed err, w')
      | (Panicked p, w') \<Rightarrow> (Panicked p, w')
      | (Returned resp, w') \<Rightarrow>
          (case cc_Choices resp of
             [] \<Rightarrow> (Panicked IndexOutOfRange, w')
           | ch # _ \<Rightarrow> (Returned (ch_Message ch), w')))"

subsection \<open>Speech to text (sttBaseReq and the four operations over it)\<close>

text \<open>
  The dynamic type of the \<open>File\<close> field, as the type switch of \<open>sttBaseReq\<close> tells it apart:
  a nil interface, a \<open>*multipart.FileHeader\<close> (possibly a nil pointer), a \<open>string\<close> path, an
  \<open>io.Reader\<close>, anything else. A file header is its name and what \<open>Open\<close> returns.
\<close>

record file_header =
  fh_Filename :: string
  fh_Open :: "string + reader"

datatype file_input =
    NilFile
  | HeaderFile "file_header option"
  | PathFile string
  | ReaderFile reader
  | OtherFile

record OATranscriptionDefaultReq =
  tr_File :: file_input
  tr_Filename :: string
  tr_Prompt :: string
  tr_Language :: string
  tr_Temperature :: rat

record OATranslationDefaultReq =
  tl_File :: file_input
  tl_Filename :: string
  tl_Prompt :: string
  tl_Temperature :: rat

text \<open>\<open>OATranscriptionReq\<close> without its \<open>File\<close> field, which \<open>sttBaseReq\<close> never sets.\<close>

record OATranscriptionReq =
  sr_Model :: string
  sr_Language :: string
  sr_Prompt :: string
  sr_ResponseFormat :: string
  sr_Temperature :: rat
  sr_TimestampGranularities :: "string list"

text \<open>
  \<open>filepath.Ext\<close> and \<open>filepath.Base\<close> of Go's standard library, for the separator \<open>/\<close>.
  \<open>Ext\<close> walks back from the end of the path to the last dot of its last element;
  \<open>Base\<close> drops trailing separators and keeps the last element.
\<close>

fun extScan :: "string \<Rightarrow> string \<Rightarrow> string" where
  "extScan [] acc = ''''"
| "extScan (ch # cs) acc =
     (if ch = CHR ''/'' then ''''
      else if ch = CHR ''.'' then ch # acc
      else extScan cs (ch # acc))"

definition filepath_Ext :: "string \<Rightarrow> string" where
  "filepath_Ext path = extScan (rev path) []"

definition filepath_Base :: "string \<Rightarrow> string" where
  "filepath_Base path =
     (if path = '''' then ''.''
      else
        let stripped = rev (dropWhile (\<lambda>ch. ch = CHR ''/'') (rev path));
            element = rev (takeWhile (\<lambda>ch. ch \<noteq> CHR ''/'') (rev stripped))
        in if element = '''' then ''/'' else element)"

definition validExts :: "string list" where
  "validExts = [''.mp3'', ''.mp4'', ''.mpeg'', ''.mpga'', ''.m4a'', ''.webm'', ''.wav'',
                ''.flac'', ''.ogg'']"

text \<open>The type switch: the file name and the reader of the content.\<close>

definition sttResolveFile :: "env \<Rightarrow> OATranscriptionDefaultReq \<Rightarrow> (string \<times> reader) result" where
  "sttResolveFile e req_body =
     (case tr_File req_body of
        HeaderFile None \<Rightarrow> Panicked NilDereference
      | HeaderFile (Some v) \<Rightarrow>
          (case fh_Open v of
             Inl err \<Rightarrow> Failed (IOError (''failed to access file content: '' @ err))
           | Inr fileContent \<Rightarrow> Returned (fh_Filename v, fileContent))
      | PathFile v \<Rightarrow>
          (case osOpen e v of
             Inl err \<Rightarrow> Failed (IOError (''failed to open file: '' @ err))
           | Inr fileContent \<Rightarrow> Returned (filepath_Base v, fileContent))
      | ReaderFile v \<Rightarrow>
          if tr_Filename req_body = ''''
          then Failed (MissingArgument ''filename must be provided if file is io.Reader'')
          else Returned (tr_Filename req_body, v)
      | _ \<Rightarrow>
          Failed (InvalidArgument
            ''file type not supported, supported type is *multipart.FileHeader, string, or io.Reader''))"

text \<open>The request struct: the fixed model, the three optional fields, the timestamp mode.\<close>

definition sttBuildReq :: "bool \<Rightarrow> bool \<Rightarrow> OATranscriptionDefaultReq \<Rightarrow> OATranscriptionReq" where
  "sttBuildReq isWordStampReq isSegmentStampReq req_body =
     \<lparr>sr_Model = ''whisper-1'',
      sr_Language = tr_Language req_body,
      sr_Prompt = tr_Prompt req_body,
      sr_ResponseFormat = (if isWordStampReq \<or> isSegmentStampReq then ''verbose_json'' else ''''),
      sr_Temperature = tr_Temperature req_body,
      sr_TimestampGranularities =
        (if isSegmentStampReq then [''segment''] else if isWordStampReq then [''word''] else [])\<rparr>"

text \<open>
  The multipart form: the file part, the model, then the optional fields in the order the
  source writes them. The writer writes into a buffer in memory, so creating a part or
  writing a field cannot fail; copying the file content can. The granularity sent is
  element 0 of the list.
\<close>

definition sttFormParts ::
  "env \<Rightarrow> bool \<Rightarrow> bool \<Rightarrow> OATranscriptionReq \<Rightarrow> string \<Rightarrow> string \<Rightarrow> form_part list result" where
  "sttFormParts e isWordStampReq isSegmentStampReq stt_req fileName fileBytes =
     (let fixed =
            [FormFile ''file'' fileName fileBytes, FormField ''model'' (sr_Model stt_req)] @
            (if sr_Temperature stt_req = 0 then []
             else [FormField ''temperature'' (formatFloat e (sr_Temperature stt_req))]) @
            (if sr_Prompt stt_req = '''' then [] else [FormField ''prompt'' (sr_Prompt stt_req)]) @
            (if sr_Language stt_req = '''' then []
             else [FormField ''language'' (sr_Language stt_req)])
      in if isWordStampReq \<or> isSegmentStampReq
         then (case sr_TimestampGranularities stt_req of
                 [] \<Rightarrow> Panicked IndexOutOfRange
               | g # _ \<Rightarrow>
                   Returned (fixed @
                     [FormField ''response_format'' (sr_ResponseFormat stt_req),
                      FormField ''timestamp_granularities[]'' g]))
         else Returned fixed)"

text \<open>
  \<open>sttBaseReq\<close>. It receives the API key as a string and none of the client's
  configuration; the client of the exchange is the literal \<open>&http.Client{}\<close>, whose
  \<open>Timeout\<close> is zero. The status code of the response is not read. The boundary of the
  multipart content type is left out of the header.
\<close>

definition sttBaseReq ::
  "env \<Rightarrow> bool \<Rightarrow> bool \<Rightarrow> bool \<Rightarrow> OATranscriptionDefaultReq \<Rightarrow> string \<Rightarrow> exchange list
     \<Rightarrow> string result \<times> exchange list" where
  "sttBaseReq e isTranscription isWordStampReq isSegmentStampReq req_body APIKey lg =
     (let req_url = (if isTranscription then OAUrlSTTTranscription else OAUrlSTTTranslation)
      in
      if tr_File req_body = NilFile then (Failed (MissingArgument ''file must be provided''), lg)
      else if tr_Temperature req_body \<noteq> 0 \<and>
              (tr_Temperature req_body < 0 \<or> tr_Temperature req_body > 1)
      then (Failed (OutOfRange ''temperature must be between 0 and 1''), lg)
      else
        (case sttResolveFile e req_body of
           Panicked p \<Rightarrow> (Panicked p, lg)
         | Failed err \<Rightarrow> (Failed err, lg)
         | Returned (fileName, fileContent) \<Rightarrow>
            if filepath_Ext fileName \<notin> set validExts
            then (Failed (InvalidArgument
                    (''your file extension is '' @ filepath_Ext fileName @
                     '', but it must be mp3, mp4, mpeg, mpga, m4a, webm, wav, flac, or ogg'')), lg)
            else if isWordStampReq \<and> isSegmentStampReq
            then (Failed (InvalidArgument
                    ''cannot use both word timestamps and segment timestamps''), lg)
            else
              (case fileContent of
                 Inl err \<Rightarrow> (Failed (IOError ''failed to copy file content''), lg)
               | Inr fileBytes \<Rightarrow>
                  (case sttFormParts e isWordStampReq isSegmentStampReq
                          (sttBuildReq isWordStampReq isSegmentStampReq req_body)
                          fileName fileBytes of
                     Panicked p \<Rightarrow> (Panicked p, lg)
                   | Failed err \<Rightarrow> (Failed err, lg)
                   | Returned parts \<Rightarrow>
                      if \<not> newRequestOk e req_url
                      then (Failed (RequestError ''failed to create http request''), lg)
                      else
                        let httpReq = \<lparr>rq_Method = ''POST'', rq_URL = req_url,
                                       rq_Header = requestHeader ''multipart/form-data'' APIKey,
                                       rq_Body = MultipartBody parts\<rparr>;
                            client = \<lparr>Timeout = 0\<rparr>;
                            lg' = lg @ [\<lparr>ex_client = client, ex_request = httpReq\<rparr>]
                        in (case httpDo e client httpReq of
                              Inl err \<Rightarrow> (Failed (TransportError ''failed to send request''), lg')
                            | Inr resp \<Rightarrow>
                                (case Body resp of
                                   Inl err \<Rightarrow>
                                     (Failed (TransportError ''failed to read response body''), lg')
                                 | Inr respBody \<Rightarrow> (Returned respBody, lg')))))))"

text \<open>
  What the four operations do with the bytes \<open>sttBaseReq\<close> returns: decode them, then read
  the \<open>Error.Message\<close> of the decoded value. \<open>msg\<close> projects that message.
\<close>

definition sttDecode ::
  "(string \<Rightarrow> string + 'r) \<Rightarrow> ('r \<Rightarrow> string) \<Rightarrow> string result \<times> exchange list
     \<Rightarrow> 'r result \<times> exchange list" where
  "sttDecode unmarshal msg out =
     (case out of
        (Panicked p, lg) \<Rightarrow> (Panicked p, lg)
      | (Failed err, lg) \<Rightarrow> (Failed err, lg)
      | (Returned respBody, lg) \<Rightarrow>
          (case unmarshal respBody of
             Inl err \<Rightarrow> (Failed (DecodeError ''failed to unmarshal response''), lg)
           | Inr result \<Rightarrow>
               if msg result \<noteq> '''' then (Failed (ProviderError (msg result)), lg)
               else (Returned result, lg)))"

definition OpenAISpeechToTextWordTimestamps ::
  "env \<Rightarrow> openaiAPI \<Rightarrow> OATranscriptionDefaultReq option \<Rightarrow> exchange list
     \<Rightarrow> OATranscriptionWordTimestampResp result \<times> exchange list" where
  "OpenAISpeechToTextWordTimestamps e c req_body lg =
     (case req_body of
        None \<Rightarrow> (Panicked NilDereference, lg)
      | Some r \<Rightarrow>
          sttDecode (decodeWord e) (\<lambda>result. err_Message (tw_Error result))
            (sttBaseReq e True True False r (apiKey c) lg))"

definition OpenAISpeechToTextSegmentTimestamps ::
  "env \<Rightarrow> openaiAPI \<Rightarrow> OATranscriptionDefaultReq option \<Rightarrow> exchange list
     \<Rightarrow> OATranscriptionSegmentResp result \<times> exchange list" where
  "OpenAISpeechToTextSegmentTimestamps e c req_body lg =
     (case req_body of
        None \<Rightarrow> (Panicked NilDereference, lg)
      | Some r \<Rightarrow>
          sttDecode (decodeSegment e) (\<lambda>result. err_Message (ts_Error result))
            (sttBaseReq e True False True r (apiKey c) lg))"

definition OpenAISpeechToTextDefault ::
  "env \<Rightarrow> openaiAPI \<Rightarrow> OATranscriptionDefaultReq option \<Rightarrow> exchange list
     \<Rightarrow> OATranscriptionDefaultResp result \<times> exchange list" where
  "OpenAISpeechToTextDefault e c req_body lg =
     (case req_body of
        None \<Rightarrow> (Panicked NilDereference, lg)
      | Some r \<Rightarrow>
          sttDecode (decodeDefault e) (\<lambda>result. err_Message (td_Error result))
            (sttBaseReq e True False False r (apiKey c) lg))"

definition OpenAISpeechToTextTranslation ::
  "env \<Rightarrow> openaiAPI \<Rightarrow> OATranslationDefaultReq option \<Rightarrow> exchange list
     \<Rightarrow> OATranscriptionDefaultResp result \<times> exchange list" where
  "OpenAISpeechToTextTranslation e c req_body lg =
     (case req_body of
        None \<Rightarrow> (Panicked NilDereference, lg)
      | Some r \<Rightarrow>
          sttDecode (decodeDefault e) (\<lambda>result. err_Message (td_Error result))
            (sttBaseReq e False False False
               \<lparr>tr_File = tl_File r, tr_Filename = tl_Filename r, tr_Prompt = tl_Prompt r,
                tr_Language = '''', tr_Temperature = tl_Temperature r\<rparr>
               (apiKey c) lg))"

subsection \<open>A recording transport and sample inputs\<close>

text \<open>
  A concrete environment for evaluating the operations: every exchange is answered with
  status 200 and a fixed body, every URL is accepted, no file exists on disk, and the
  decoders return fixed values (a chat completion with no choice; transcriptions that carry
  an in-band error). What reaches the network is read off the log the operations return.
\<close>

definition okResponse :: http_Response where
  "okResponse = \<lparr>StatusCode = 200, Status = ''200 OK'', Body = Inr ''{}''\<rparr>"

definition inbandError :: OASTTError where
  "inbandError =
     \<lparr>err_Message = ''Incorrect API key provided'', err_Type = ''invalid_request_error'',
      err_Param = '''', err_Code = 0\<rparr>"

definition spyEnv :: env where
  "spyEnv =
     \<lparr>httpDo = (\<lambda>client req. Inr okResponse),
      newRequestOk = (\<lambda>url. True),
      osOpen = (\<lambda>path. Inl ''no such file or directory''),
      decodeChat = (\<lambda>bs. Inr \<lparr>cc_ID = '''', cc_Object = '''', cc_Created = 0, cc_Model = '''',
                                cc_SystemFingerprint = '''', cc_Choices = [],
                                cc_Usage = \<lparr>us_PromptTokens = 0, us_CompletionTokens = 0,
                                            us_TotalTokens = 0, us_ReasoningTokens = 0\<rparr>\<rparr>),
      decodeImage = (\<lambda>bs. Inr \<lparr>imr_Created = 0, imr_Data = []\<rparr>),
      decodeDefault = (\<lambda>bs. Inr \<lparr>td_Text = '''', td_Error = inbandError\<rparr>),
      decodeWord = (\<lambda>bs. Inr \<lparr>tw_Task = '''', tw_Language = '''', tw_Duration = 0,
                                tw_Text = '''', tw_Words = [], tw_Error = inbandError\<rparr>),
      decodeSegment = (\<lambda>bs. Inr \<lparr>ts_Task = '''', ts_Language = '''', ts_Duration = 0,
                                   ts_Text = '''', ts_Segments = [], ts_Error = inbandError\<rparr>),
      formatFloat = (\<lambda>x. ''0.500000''),
      base64Std = (\<lambda>bs. ''e30='')\<rparr>"

text \<open>The client \<open>New\<close> returns for a key and no option, and a client without a key.\<close>

definition keyedClient :: openaiAPI where
  "keyedClient =
     \<lparr>apiKey = ''sk-test'', openaiOrganization = '''', openaiProject = '''',
      config = DefaultConfig\<rparr>"

definition keylessClient :: openaiAPI where
  "keylessClient =
     \<lparr>apiKey = '''', openaiOrganization = '''', openaiProject = '''', config = DefaultConfig\<rparr>"

text \<open>The client \<open>New\<close> returns when given an HTTP client with a timeout of 30 seconds.\<close>

definition timeoutClient :: openaiAPI where
  "timeoutClient =
     \<lparr>apiKey = ''sk-test'', openaiOrganization = '''', openaiProject = '''',
      config = \<lparr>httpClient = \<lparr>Timeout = 30\<rparr>, openAIBaseUrl = OAUrlTextCompletions,
                openAIModel = OABaseModel\<rparr>\<rparr>"

definition speechReq :: "string \<Rightarrow> string \<Rightarrow> string \<Rightarrow> OAReqTextToSpeech" where
  "speechReq model voice fmt =
     \<lparr>tts_Model = model, tts_Input = ''Hello, world!'', tts_Voice = voice,
      tts_ResponseFormat = fmt, tts_Speed = None\<rparr>"

definition imageReq ::
  "string \<Rightarrow> int option \<Rightarrow> string option \<Rightarrow> string option \<Rightarrow> OAReqImageGeneratorDallE" where
  "imageReq model n quality style =
     \<lparr>img_Prompt = ''A futuristic cityscape at sunset'', img_Model = model, img_N = n,
      img_Quality = quality, img_ResponseFormat = None, img_Size = None, img_Style = style,
      img_User = None\<rparr>"

definition audioReq :: OATranscriptionDefaultReq where
  "audioReq =
     \<lparr>tr_File = ReaderFile (Inr ''RIFF''), tr_Filename = ''audio.mp3'', tr_Prompt = '''',
      tr_Language = ''en'', tr_Temperature = 0\<rparr>"

definition audioTranslationReq :: OATranslationDefaultReq where
  "audioTranslationReq =
     \<lparr>tl_File = ReaderFile (Inr ''RIFF''), tl_Filename = ''audio.mp3'', tl_Prompt = '''',
      tl_Temperature = 0\<rparr>"

definition emptyReqBody :: OAReqBodyMessageCompletion where
  "emptyReqBody =
     \<lparr>rb_Messages = GNil, rb_Model = '''', rb_Store = False, rb_Metadata = GNil,
      rb_FrequencyPenalty = 0, rb_LogitBias = [], rb_Logprobe = False, rb_Modalities = [],
      rb_ResponseFormat = []\<rparr>"

definition customReqBody :: OAReqBodyMessageCompletion where
  "customReqBody =
     emptyReqBody\<lparr>rb_Messages := messagesValue [\<lparr>mr_Role = ''user'', mr_Content = GStr ''Hi''\<rparr>],
                  rb_Model := ''gpt-4o'', rb_Store := True,
                  rb_ResponseFormat := [(''type'', GStr ''text'')]\<rparr>"

definition world0 :: world where
  "world0 = \<lparr>heap = (\<lambda>a. if a = 1 then customReqBody else emptyReqBody), exlog = []\<rparr>"

definition userHello :: "OAMessageReq list" where
  "userHello = [\<lparr>mr_Role = ''user'', mr_Content = GStr ''What is the weather like today?''\<rparr>]"

definition weatherSchema :: "(string \<times> gval) list" where
  "weatherSchema =
     [(''temperature'', GMap [(''type'', GStr ''string'')]),
      (''condition'', GMap [(''type'', GStr ''string'')])]"

section \<open>Properties\<close>

subsection \<open>Evaluation lemmas for the sample inputs\<close>

lemma spyEnv_sel:
  "httpDo spyEnv = (\<lambda>client req. Inr okResponse)"
  "newRequestOk spyEnv = (\<lambda>url. True)"
  "osOpen spyEnv = (\<lambda>path. Inl ''no such file or directory'')"
  "decodeDefault spyEnv = (\<lambda>bs. Inr \<lparr>td_Text = '''', td_Error = inbandError\<rparr>)"
  "formatFloat spyEnv = (\<lambda>x. ''0.500000'')"
  "base64Std spyEnv = (\<lambda>bs. ''e30='')"
  by (simp_all add: spyEnv_def)

lemma audioReq_sel:
  "tr_File audioReq = ReaderFile (Inr ''RIFF'')"
  "tr_Filename audioReq = ''audio.mp3''"
  "tr_Prompt audioReq = ''''"
  "tr_Language audioReq = ''en''"
  "tr_Temperature audioReq = 0"
  by (simp_all add: audioReq_def)

lemma sttResolveFile_audioReq:
  "sttResolveFile e audioReq = Returned (''audio.mp3'', Inr ''RIFF'')"
  by (simp add: sttResolveFile_def audioReq_def)

lemma filepath_Ext_audio_mp3: "filepath_Ext ''audio.mp3'' = ''.mp3''"
  by (simp add: filepath_Ext_def)

lemma spyEnv_decoders:
  "decodeChat spyEnv =
     (\<lambda>bs. Inr \<lparr>cc_ID = '''', cc_Object = '''', cc_Created = 0, cc_Model = '''',
                 cc_SystemFingerprint = '''', cc_Choices = [],
                 cc_Usage = \<lparr>us_PromptTokens = 0, us_CompletionTokens = 0,
                             us_TotalTokens = 0, us_ReasoningTokens = 0\<rparr>\<rparr>)"
  "decodeImage spyEnv = (\<lambda>bs. Inr \<lparr>imr_Created = 0, imr_Data = []\<rparr>)"
  "decodeWord spyEnv =
     (\<lambda>bs. Inr \<lparr>tw_Task = '''', tw_Language = '''', tw_Duration = 0, tw_Text = '''',
                 tw_Words = [], tw_Error = inbandError\<rparr>)"
  "decodeSegment spyEnv =
     (\<lambda>bs. Inr \<lparr>ts_Task = '''', ts_Language = '''', ts_Duration = 0, ts_Text = '''',
                 ts_Segments = [], ts_Error = inbandError\<rparr>)"
  by (simp_all add: spyEnv_def)

lemma keyedClient_sel:
  "apiKey keyedClient = ''sk-test''"
  "httpClient (config keyedClient) = \<lparr>Timeout = 60\<rparr>"
  "openAIBaseUrl (config keyedClient) = ''https://api.openai.com/v1/chat/completions''"
  "openAIModel (config keyedClient) = ''gpt-4o-mini''"
  by (simp_all add: keyedClient_def DefaultConfig_def OAUrlTextCompletions_def OAUrlBase_def
        OABaseModel_def)

lemma keylessClient_sel:
  "apiKey keylessClient = ''''"
  "httpClient (config keylessClient) = \<lparr>Timeout = 60\<rparr>"
  by (simp_all add: keylessClient_def DefaultConfig_def)

lemma timeoutClient_sel:
  "apiKey timeoutClient = ''sk-test''"
  "httpClient (config timeoutClient) = \<lparr>Timeout = 30\<rparr>"
  by (simp_all add: timeoutClient_def)

lemma New_keyedClient: "New ''sk-test'' '''' '''' [] = Inr keyedClient"
  by (simp add: New_def keyedClient_def)

lemma New_timeoutClient:
  "New ''sk-test'' '''' '''' [WithHTTPClient \<lparr>Timeout = 30\<rparr>] = Inr timeoutClient"
  by (simp add: New_def timeoutClient_def WithHTTPClient_def DefaultConfig_def)

lemma New_never_keyless: "New key org proj opts = Inr c \<Longrightarrow> apiKey c \<noteq> ''''"
  by (auto simp: New_def split: if_splits)

text \<open>
  \<open>sttBaseReq\<close> on a reader that yields four bytes under the name \<open>audio.mp3\<close>, for each
  endpoint, timestamp mode, language and key: one exchange, through a client without
  timeout, carrying whatever key it was given.
\<close>

lemma sttBaseReq_reader:
  "sttBaseReq spyEnv isT isW isS
     \<lparr>tr_File = ReaderFile (Inr ''RIFF''), tr_Filename = ''audio.mp3'', tr_Prompt = '''',
      tr_Language = lang, tr_Temperature = 0\<rparr> key [] =
     (if isW \<and> isS
      then (Failed (InvalidArgument ''cannot use both word timestamps and segment timestamps''), [])
      else
        (Returned ''{}'',
         [\<lparr>ex_client = \<lparr>Timeout = 0\<rparr>,
           ex_request =
             \<lparr>rq_Method = ''POST'',
              rq_URL = (if isT then ''https://api.openai.com/v1/audio/transcriptions''
                        else ''https://api.openai.com/v1/audio/translations''),
              rq_Header = [(''Content-Type'', ''multipart/form-data''),
                           (''Authorization'', ''Bearer '' @ key)],
              rq_Body = MultipartBody
                ([FormFile ''file'' ''audio.mp3'' ''RIFF'', FormField ''model'' ''whisper-1''] @
                 (if lang = '''' then [] else [FormField ''language'' lang]) @
                 (if isW \<or> isS
                  then [FormField ''response_format'' ''verbose_json'',
                        FormField ''timestamp_granularities[]''
                          (if isS then ''segment'' else ''word'')]
                  else []))\<rparr>\<rparr>]))"
  by (simp add: sttBaseReq_def sttResolveFile_def filepath_Ext_audio_mp3 validExts_def
        sttFormParts_def sttBuildReq_def spyEnv_sel okResponse_def requestHeader_def
        OAUrlSTTTranscription_def OAUrlSTTTranslation_def OAUrlBase_def Let_def)

lemma audioReq_eq:
  "audioReq =
     \<lparr>tr_File = ReaderFile (Inr ''RIFF''), tr_Filename = ''audio.mp3'', tr_Prompt = '''',
      tr_Language = ''en'', tr_Temperature = 0\<rparr>"
  by (simp add: audioReq_def)

lemma audioTranslationReq_sel:
  "tl_File audioTranslationReq = ReaderFile (Inr ''RIFF'')"
  "tl_Filename audioTranslationReq = ''audio.mp3''"
  "tl_Prompt audioTranslationReq = ''''"
  "tl_Temperature audioTranslationReq = 0"
  by (simp_all add: audioTranslationReq_def)

lemma inbandError_message: "err_Message inbandError = ''Incorrect API key provided''"
  by (simp add: inbandError_def)

lemma jsonMarshal_userHello:
  "jsonMarshal (messagesValue userHello) =
     Some (JArr [JObj [(''role'', JStr ''user''),
                       (''content'', JStr ''What is the weather like today?'')]])"
  by (simp add: messagesValue_def userHello_def)

lemma jsonMarshalMembers_weatherSchema:
  "jsonMarshalMembers weatherSchema =
     Some [(''temperature'', JObj [(''type'', JStr ''string'')]),
           (''condition'', JObj [(''type'', JStr ''string'')])]"
  by (simp add: weatherSchema_def)

subsection \<open>Speech to text: the two timestamp modes exclude each other\<close>

lemma sttResolveFile_Returned_not_nil:
  "sttResolveFile e r = Returned res \<Longrightarrow> tr_File r \<noteq> NilFile"
  by (auto simp: sttResolveFile_def)

text \<open>
  Claim C9. Take a speech-to-text request whose file input resolves to a name and a
  reader, whose file name has one of the accepted extensions, and whose temperature lies in
  \<open>[0, 1]\<close>. When word timestamps and segment timestamps are both requested,
  \<open>sttBaseReq\<close> returns the error \<open>cannot use both word timestamps and segment
  timestamps\<close> (an \<open>InvalidArgument\<close>): it returns no bytes, and the log of exchanges is the
  one it was given, so no request was sent. This holds for the transcription and the
  translation endpoint, whatever the key and the other fields are.
\<close>

theorem sttBaseReq_both_timestamps_rejected:
  assumes "sttResolveFile e r = Returned (fileName, fileContent)"
    and "filepath_Ext fileName \<in> set validExts"
    and "0 \<le> tr_Temperature r" and "tr_Temperature r \<le> 1"
  shows "sttBaseReq e isTranscription True True r key lg =
     (Failed (InvalidArgument ''cannot use both word timestamps and segment timestamps''), lg)"
proof -
  have "tr_File r \<noteq> NilFile"
    using assms(1) by (rule sttResolveFile_Returned_not_nil)
  then show ?thesis
    using assms by (simp add: sttBaseReq_def)
qed

theorem sttBaseReq_both_timestamps_rejected_witness:
  "sttResolveFile spyEnv audioReq = Returned (''audio.mp3'', Inr ''RIFF'') \<and>
   filepath_Ext ''audio.mp3'' \<in> set validExts \<and>
   0 \<le> tr_Temperature audioReq \<and> tr_Temperature audioReq \<le> 1 \<and>
   sttBaseReq spyEnv True True True audioReq ''sk-test'' [] =
     (Failed (InvalidArgument ''cannot use both word timestamps and segment timestamps''), [])"
  using sttBaseReq_both_timestamps_rejected
          [of spyEnv audioReq "''audio.mp3''" "Inr ''RIFF''" True "''sk-test''" "[]"]
  by (simp add: sttResolveFile_audioReq filepath_Ext_audio_mp3 validExts_def audioReq_sel)

subsection \<open>An empty API key\<close>

text \<open>
  Claim C1, amended. Let the client's API key be the empty string. Then
  \<^item> \<open>OpenAISendMessage\<close> and \<open>OpenAIGetFirstContentDataResp\<close> return the error
    \<open>API Key is empty\<close> (an \<open>AuthError\<close>) for every argument, and leave the heap and the log of
    exchanges as they were;
  \<^item> \<open>OpenAICreateImageDallE\<close> and \<open>OpenAITextToSpeech\<close>, on a request that is not nil, return
    an error and leave the log as it was: the error of the first input check that fails,
    and \<open>API Key is empty\<close> when every input check passes.
  In all four the log is unchanged, so \<open>client.Do\<close> was not called. Nothing is said here
  about the four speech-to-text operations.
\<close>

theorem empty_key_fails_before_network:
  assumes "apiKey c = ''''"
  shows
    "OpenAISendMessage e c content with_format_response format_response with_custom_reqbody
        req_body_custom w = (Failed (AuthError ''API Key is empty''), w)
   \<and> OpenAIGetFirstContentDataResp e c content with_format_response format_response
        with_custom_reqbody req_body_custom w = (Failed (AuthError ''API Key is empty''), w)
   \<and> OpenAICreateImageDallE e c (Some ir) lg =
        (Failed (case imageInputChecker ir of
                   Some err \<Rightarrow> err | None \<Rightarrow> AuthError ''API Key is empty''), lg)
   \<and> OpenAITextToSpeech e c (Some sr) lg =
        (Failed (case ttsInputChecker sr of
                   Some err \<Rightarrow> err | None \<Rightarrow> AuthError ''API Key is empty''), lg)"
  using assms
  by (simp add: OpenAISendMessage_def OpenAIGetFirstContentDataResp_def
        OpenAICreateImageDallE_def OpenAITextToSpeech_def split: option.splits)

theorem empty_key_fails_before_network_witness:
  "apiKey keylessClient = ''''
   \<and> OpenAISendMessage spyEnv keylessClient (Some userHello) False None False None world0 =
        (Failed (AuthError ''API Key is empty''), world0)
   \<and> OpenAIGetFirstContentDataResp spyEnv keylessClient (Some userHello) False None False None
        world0 = (Failed (AuthError ''API Key is empty''), world0)
   \<and> OpenAICreateImageDallE spyEnv keylessClient
        (Some (imageReq ''dall-e-3'' None (Some ''hd'') None)) [] =
        (Failed (AuthError ''API Key is empty''), [])
   \<and> OpenAITextToSpeech spyEnv keylessClient (Some (speechReq ''tts-1'' ''alloy'' ''mp3'')) [] =
        (Failed (AuthError ''API Key is empty''), [])"
  using empty_key_fails_before_network
          [of keylessClient spyEnv "Some userHello" False None False None world0
              "imageReq ''dall-e-3'' None (Some ''hd'') None" "[]"
              "speechReq ''tts-1'' ''alloy'' ''mp3''"]
  by (simp add: keylessClient_sel imageInputChecker_def imageReq_def ttsInputChecker_def
        speechReq_def)

text \<open>
  Claim C1 as stated fails at two inputs, both with the key empty. Text-to-speech with the
  model \<open>gpt-3\<close> returns the error of its model check, an \<open>InvalidArgument\<close> and not an
  \<open>AuthError\<close>: the input checks come before the key check. \<open>OpenAISpeechToTextDefault\<close> on a
  readable \<open>audio.mp3\<close> sends one request, with the header \<open>Authorization: Bearer \<close> and
  nothing after it: \<open>sttBaseReq\<close> never compares its key with the empty string.
\<close>

theorem empty_key_counterexample:
  "OpenAITextToSpeech spyEnv keylessClient (Some (speechReq ''gpt-3'' ''alloy'' ''mp3'')) [] =
     (Failed (InvalidArgument ''Model must be gpt-3 or davinci''), [])
   \<and> map (\<lambda>x. rq_Header (ex_request x))
         (snd (OpenAISpeechToTextDefault spyEnv keylessClient (Some audioReq) [])) =
       [[(''Content-Type'', ''multipart/form-data''), (''Authorization'', ''Bearer '')]]"
  by (simp add: OpenAITextToSpeech_def ttsInputChecker_def speechReq_def
        OpenAISpeechToTextDefault_def sttDecode_def audioReq_eq sttBaseReq_reader
        keylessClient_sel spyEnv_sel inbandError_def)

subsection \<open>Text-to-speech: the response format and the voice\<close>

lemma ttsInputChecker_never_response_format:
  "ttsInputChecker r \<noteq>
     Some (InvalidArgument ''ResponseFormat must be mp3, opus, aac, flac, wav, or pcm'')"
  by (auto simp: ttsInputChecker_def split: option.splits)

text \<open>
  Claim C2, evaluated on the code. A text-to-speech request with model \<open>tts-1\<close>, a
  non-empty input, voice \<open>alloy\<close> and the response format \<open>xyz\<close>, which is none of \<open>mp3\<close>,
  \<open>opus\<close>, \<open>aac\<close>, \<open>flac\<close>, \<open>wav\<close>, \<open>pcm\<close>, passes every input check: the operation sends the
  request, with \<open>response_format: xyz\<close> in its body, and returns a result whose audio
  format is \<open>.xyz\<close>. The claim asks for an \<open>InvalidArgument\<close> before any network call.
\<close>

theorem OpenAITextToSpeech_unknown_response_format_sent:
  "ttsInputChecker (speechReq ''tts-1'' ''alloy'' ''xyz'') = None
   \<and> OpenAITextToSpeech spyEnv keyedClient (Some (speechReq ''tts-1'' ''alloy'' ''xyz'')) [] =
     (Returned \<lparr>FormatAudio = ''.xyz'', B64JSON = ''e30=''\<rparr>,
      [\<lparr>ex_client = \<lparr>Timeout = 60\<rparr>,
        ex_request =
          \<lparr>rq_Method = ''POST'', rq_URL = ''https://api.openai.com/v1/audio/speech'',
           rq_Header = [(''Content-Type'', ''application/json''),
                        (''Authorization'', ''Bearer sk-test'')],
           rq_Body = JsonBody (JObj
             [(''model'', JStr ''tts-1''), (''input'', JStr ''Hello, world!''),
              (''voice'', JStr ''alloy''), (''response_format'', JStr ''xyz'')])\<rparr>\<rparr>])"
  by (simp add: OpenAITextToSpeech_def ttsInputChecker_def speechReq_def spyEnv_sel
        keyedClient_sel okResponse_def requestHeader_def ttsMarshal_def OAUrlTextToSpeech_def
        OAUrlBase_def)

text \<open>
  The voice check as the code has it: past the model and input checks, a voice is
  rejected exactly when it is not empty and not one of \<open>alloy\<close>, \<open>echo\<close>, \<open>fable\<close>, \<open>onyx\<close>,
  \<open>nova\<close>, \<open>shimer\<close>.
\<close>

lemma ttsInputChecker_voice:
  assumes "tts_Model r = ''tts-1'' \<or> tts_Model r = ''tts-1-hd''" and "tts_Input r \<noteq> ''''"
  shows "(ttsInputChecker r =
            Some (InvalidArgument ''Voice must be alloy, echo, fable, onyx, nova, or shimmer'')) =
         (tts_Voice r \<notin> {'''', ''alloy'', ''echo'', ''fable'', ''onyx'', ''nova'', ''shimer''})"
proof -
  have model: "\<not> (tts_Model r = '''' \<or> (tts_Model r \<noteq> ''tts-1'' \<and> tts_Model r \<noteq> ''tts-1-hd''))"
    using assms(1) by auto
  show ?thesis
    using model assms(2) by (simp add: ttsInputChecker_def split: option.splits)
qed

text \<open>
  Claim C4, evaluated on the code. With a valid model and a non-empty input, the voice
  \<open>shimmer\<close> is rejected with the error \<open>Voice must be alloy, echo, fable, onyx, nova, or
  shimmer\<close>, and the voice \<open>shimer\<close>, which is not one of the six, passes every input
  check. The claim asks for \<open>shimmer\<close> to pass and for every other non-empty voice outside
  the six to fail.
\<close>

theorem ttsInputChecker_shimmer_rejected:
  "ttsInputChecker (speechReq ''tts-1'' ''shimmer'' ''mp3'') =
     Some (InvalidArgument ''Voice must be alloy, echo, fable, onyx, nova, or shimmer'')
   \<and> ttsInputChecker (speechReq ''tts-1'' ''shimer'' ''mp3'') = None"
  by (simp add: ttsInputChecker_def speechReq_def)

subsection \<open>Chat completion: panics\<close>

text \<open>
  Claim C3, evaluated on the code. Two inputs on which a public operation returns neither
  a result nor an error.
  \<^item> \<open>OpenAISendMessage\<close> with \<open>with_custom_reqbody = true\<close> and a nil \<open>req_body_custom\<close>, on a
    client with a key: the third guard reads \<open>req_body_custom.Messages\<close> through the nil
    pointer, a nil dereference, for every environment, content and format.
  \<^item> \<open>OpenAIGetFirstContentDataResp\<close> when the decoded response has an empty list of
    choices: \<open>resp.Choices[0]\<close> is out of range.
\<close>

theorem chat_operations_panic:
  "OpenAISendMessage e keyedClient content False format_response True None w =
     (Panicked NilDereference, w)
   \<and> fst (OpenAIGetFirstContentDataResp spyEnv keyedClient (Some userHello) False None False
            None world0) = Panicked IndexOutOfRange"
  by (simp add: OpenAIGetFirstContentDataResp_def OpenAISendMessage_def chatExchange_def
        marshalReqBody_def omitemptyDyn_def omitemptyMap_def jsonMarshal_userHello
        keyedClient_sel spyEnv_sel spyEnv_decoders okResponse_def Let_def)

subsection \<open>Speech to text: errors inside a decoded response\<close>

text \<open>
  Claim C5. For each of \<open>OpenAISpeechToTextDefault\<close>, \<open>OpenAISpeechToTextWordTimestamps\<close>,
  \<open>OpenAISpeechToTextSegmentTimestamps\<close> and \<open>OpenAISpeechToTextTranslation\<close>: when
  \<open>sttBaseReq\<close> has returned the bytes of a response, those bytes decode into the
  operation's response struct, and the \<open>Error.Message\<close> of the decoded struct is not empty,
  the operation returns a \<open>ProviderError\<close> carrying exactly that message and no typed
  result. \<open>sttBaseReq\<close> returns the body without reading the status code, so this covers
  a response with status 200.
\<close>

theorem stt_inband_error_is_ProviderError:
  "(sttBaseReq e True False False r (apiKey c) lg = (Returned body, lg') \<and>
    decodeDefault e body = Inr res \<and> err_Message (td_Error res) \<noteq> '''' \<longrightarrow>
    OpenAISpeechToTextDefault e c (Some r) lg =
      (Failed (ProviderError (err_Message (td_Error res))), lg'))
 \<and> (sttBaseReq e True True False r (apiKey c) lg = (Returned body, lg') \<and>
    decodeWord e body = Inr resW \<and> err_Message (tw_Error resW) \<noteq> '''' \<longrightarrow>
    OpenAISpeechToTextWordTimestamps e c (Some r) lg =
      (Failed (ProviderError (err_Message (tw_Error resW))), lg'))
 \<and> (sttBaseReq e True False True r (apiKey c) lg = (Returned body, lg') \<and>
    decodeSegment e body = Inr resS \<and> err_Message (ts_Error resS) \<noteq> '''' \<longrightarrow>
    OpenAISpeechToTextSegmentTimestamps e c (Some r) lg =
      (Failed (ProviderError (err_Message (ts_Error resS))), lg'))
 \<and> (sttBaseReq e False False False
       \<lparr>tr_File = tl_File t, tr_Filename = tl_Filename t, tr_Prompt = tl_Prompt t,
        tr_Language = '''', tr_Temperature = tl_Temperature t\<rparr> (apiKey c) lg =
       (Returned body, lg') \<and>
    decodeDefault e body = Inr res \<and> err_Message (td_Error res) \<noteq> '''' \<longrightarrow>
    OpenAISpeechToTextTranslation e c (Some t) lg =
      (Failed (ProviderError (err_Message (td_Error res))), lg'))"
  by (simp add: OpenAISpeechToTextDefault_def OpenAISpeechToTextWordTimestamps_def
        OpenAISpeechToTextSegmentTimestamps_def OpenAISpeechToTextTranslation_def sttDecode_def)

theorem stt_inband_error_is_ProviderError_witness:
  "fst (OpenAISpeechToTextDefault spyEnv keyedClient (Some audioReq) []) =
     Failed (ProviderError ''Incorrect API key provided'')
   \<and> fst (OpenAISpeechToTextWordTimestamps spyEnv keyedClient (Some audioReq) []) =
     Failed (ProviderError ''Incorrect API key provided'')
   \<and> fst (OpenAISpeechToTextSegmentTimestamps spyEnv keyedClient (Some audioReq) []) =
     Failed (ProviderError ''Incorrect API key provided'')
   \<and> fst (OpenAISpeechToTextTranslation spyEnv keyedClient (Some audioTranslationReq) []) =
     Failed (ProviderError ''Incorrect API key provided'')
   \<and> StatusCode okResponse = 200"
proof -
  let ?k = "apiKey keyedClient"
  obtain l1 where h1: "sttBaseReq spyEnv True False False audioReq ?k [] = (Returned ''{}'', l1)"
    by (simp add: audioReq_eq sttBaseReq_reader)
  obtain l2 where h2: "sttBaseReq spyEnv True True False audioReq ?k [] = (Returned ''{}'', l2)"
    by (simp add: audioReq_eq sttBaseReq_reader)
  obtain l3 where h3: "sttBaseReq spyEnv True False True audioReq ?k [] = (Returned ''{}'', l3)"
    by (simp add: audioReq_eq sttBaseReq_reader)
  obtain l4 where h4:
    "sttBaseReq spyEnv False False False
       \<lparr>tr_File = tl_File audioTranslationReq, tr_Filename = tl_Filename audioTranslationReq,
        tr_Prompt = tl_Prompt audioTranslationReq, tr_Language = '''',
        tr_Temperature = tl_Temperature audioTranslationReq\<rparr> ?k [] = (Returned ''{}'', l4)"
    by (simp add: audioTranslationReq_sel sttBaseReq_reader)
  have c1: "OpenAISpeechToTextDefault spyEnv keyedClient (Some audioReq) [] =
              (Failed (ProviderError ''Incorrect API key provided''), l1)"
    using stt_inband_error_is_ProviderError
            [where e = spyEnv and c = keyedClient and r = audioReq and lg = "[]"
               and body = "''{}''" and lg' = l1
               and res = "\<lparr>td_Text = '''', td_Error = inbandError\<rparr>"] h1
    by (simp add: spyEnv_sel inbandError_message)
  have c2: "OpenAISpeechToTextWordTimestamps spyEnv keyedClient (Some audioReq) [] =
              (Failed (ProviderError ''Incorrect API key provided''), l2)"
    using stt_inband_error_is_ProviderError
            [where e = spyEnv and c = keyedClient and r = audioReq and lg = "[]"
               and body = "''{}''" and lg' = l2
               and resW = "\<lparr>tw_Task = '''', tw_Language = '''', tw_Duration = 0,
                             tw_Text = '''', tw_Words = [], tw_Error = inbandError\<rparr>"] h2
    by (simp add: spyEnv_decoders inbandError_message)
  have c3: "OpenAISpeechToTextSegmentTimestamps spyEnv keyedClient (Some audioReq) [] =
              (Failed (ProviderError ''Incorrect API key provided''), l3)"
    using stt_inband_error_is_ProviderError
            [where e = spyEnv and c = keyedClient and r = audioReq and lg = "[]"
               and body = "''{}''" and lg' = l3
               and resS = "\<lparr>ts_Task = '''', ts_Language = '''', ts_Duration = 0,
                             ts_Text = '''', ts_Segments = [], ts_Error = inbandError\<rparr>"] h3
    by (simp add: spyEnv_decoders inbandError_message)
  have c4: "OpenAISpeechToTextTranslation spyEnv keyedClient (Some audioTranslationReq) [] =
              (Failed (ProviderError ''Incorrect API key provided''), l4)"
    using stt_inband_error_is_ProviderError
            [where e = spyEnv and c = keyedClient and t = audioTranslationReq and lg = "[]"
               and body = "''{}''" and lg' = l4
               and res = "\<lparr>td_Text = '''', td_Error = inbandError\<rparr>"] h4
    by (simp add: spyEnv_sel inbandError_message)
  show ?thesis
    by (simp add: c1 c2 c3 c4 okResponse_def)
qed

subsection \<open>The HTTP client of an exchange\<close>

text \<open>
  Whatever the request, a client built with any configuration leaves \<open>sttBaseReq\<close> at most
  one exchange, and that one through a client without timeout; the chat exchange leaves
  at most one, through the configured client.
\<close>

lemma sttBaseReq_exchange_client:
  "snd (sttBaseReq e isTranscription isWordStampReq isSegmentStampReq r key lg) = lg \<or>
   (\<exists>req. snd (sttBaseReq e isTranscription isWordStampReq isSegmentStampReq r key lg) =
            lg @ [\<lparr>ex_client = \<lparr>Timeout = 0\<rparr>, ex_request = req\<rparr>])"
  by (simp add: sttBaseReq_def Let_def split: result.splits sum.splits prod.splits)

lemma chatExchange_exchange_client:
  "exlog (snd (chatExchange e c reqBody w)) = exlog w \<or>
   (\<exists>req. exlog (snd (chatExchange e c reqBody w)) =
            exlog w @ [\<lparr>ex_client = httpClient (config c), ex_request = req\<rparr>])"
  by (simp add: chatExchange_def Let_def split: option.splits sum.splits)

text \<open>
  Claim C6, evaluated on the code. Take the client that \<open>New\<close> builds from a key and the
  option \<open>WithHTTPClient\<close> of an HTTP client with a timeout of 30 seconds. Each of the four
  speech-to-text operations performs its exchange through an HTTP client whose timeout is
  zero (the \<open>&http.Client{}\<close> that \<open>sttBaseReq\<close> constructs), not through the configured one;
  text-to-speech on the same client goes through the configured one.
\<close>

theorem stt_exchange_ignores_configured_client:
  "New ''sk-test'' '''' '''' [WithHTTPClient \<lparr>Timeout = 30\<rparr>] = Inr timeoutClient
   \<and> httpClient (config timeoutClient) = \<lparr>Timeout = 30\<rparr>
   \<and> map ex_client (snd (OpenAISpeechToTextDefault spyEnv timeoutClient (Some audioReq) [])) =
       [\<lparr>Timeout = 0\<rparr>]
   \<and> map ex_client
        (snd (OpenAISpeechToTextWordTimestamps spyEnv timeoutClient (Some audioReq) [])) =
       [\<lparr>Timeout = 0\<rparr>]
   \<and> map ex_client
        (snd (OpenAISpeechToTextSegmentTimestamps spyEnv timeoutClient (Some audioReq) [])) =
       [\<lparr>Timeout = 0\<rparr>]
   \<and> map ex_client
        (snd (OpenAISpeechToTextTranslation spyEnv timeoutClient (Some audioTranslationReq) [])) =
       [\<lparr>Timeout = 0\<rparr>]
   \<and> map ex_client
        (snd (OpenAITextToSpeech spyEnv timeoutClient (Some (speechReq ''tts-1'' ''alloy'' ''mp3''))
                [])) =
       [\<lparr>Timeout = 30\<rparr>]"
  by (simp add: New_timeoutClient timeoutClient_sel
        OpenAISpeechToTextDefault_def OpenAISpeechToTextWordTimestamps_def
        OpenAISpeechToTextSegmentTimestamps_def OpenAISpeechToTextTranslation_def
        sttDecode_def audioReq_eq audioTranslationReq_sel sttBaseReq_reader
        spyEnv_sel spyEnv_decoders inbandError_def
        OpenAITextToSpeech_def ttsInputChecker_def speechReq_def okResponse_def)

subsection \<open>Chat completion: the schema envelope in the request body\<close>

text \<open>
  Claim C7. Call \<open>OpenAISendMessage\<close> on the content path
  (\<open>with_custom_reqbody = false\<close>, \<open>with_format_response = true\<close>) with the envelope
  \<open>OACreateResponseFormat jsonName jsonSchema\<close>, on a client with a key and a URL that
  \<open>http.NewRequest\<close> accepts, with messages and a schema that \<open>json.Marshal\<close> can serialise
  (to \<open>jm\<close> and to the members \<open>js\<close>). Then exactly one request is sent; its body has the
  three members \<open>messages\<close>, \<open>model\<close> and \<open>response_format\<close>; the member
  \<open>response_format\<close> of the body is the serialised envelope; and the serialised envelope
  is the object with the members \<open>json_schema: {name: jsonName, schema: {js}}\<close> and
  \<open>type: "json_schema"\<close> (a map's members come out sorted by key), the name and the
  schema as they were given.
\<close>

theorem response_format_is_the_envelope:
  assumes "apiKey c \<noteq> ''''"
    and "newRequestOk e (openAIBaseUrl (config c))"
    and "jsonMarshal (messagesValue msgs) = Some jm"
    and "jsonMarshalMembers jsonSchema = Some js"
  shows
    "exlog (snd (OpenAISendMessage e c (Some msgs) True
                   (Some (OACreateResponseFormat jsonName jsonSchema)) False req_body_custom w)) =
       exlog w @
       [\<lparr>ex_client = httpClient (config c),
         ex_request =
           \<lparr>rq_Method = ''POST'', rq_URL = openAIBaseUrl (config c),
            rq_Header = requestHeader ''application/json'' (apiKey c),
            rq_Body = JsonBody (JObj
              [(''messages'', jm), (''model'', JStr (openAIModel (config c))),
               (''response_format'',
                  JObj [(''json_schema'',
                           JObj [(''name'', JStr jsonName),
                                 (''schema'', JObj (sort_key fst js))]),
                        (''type'', JStr ''json_schema'')])])\<rparr>\<rparr>]
   \<and> map (\<lambda>x. case rq_Body (ex_request x) of
                  JsonBody b \<Rightarrow> jsonField ''response_format'' b
                | MultipartBody ps \<Rightarrow> None)
         (drop (length (exlog w))
            (exlog (snd (OpenAISendMessage e c (Some msgs) True
                      (Some (OACreateResponseFormat jsonName jsonSchema)) False
                      req_body_custom w)))) =
       [jsonMarshal (GMap (OACreateResponseFormat jsonName jsonSchema))]
   \<and> jsonMarshal (GMap (OACreateResponseFormat jsonName jsonSchema)) =
       Some (JObj [(''json_schema'',
                      JObj [(''name'', JStr jsonName), (''schema'', JObj (sort_key fst js))]),
                   (''type'', JStr ''json_schema'')])"
proof -
  have envelope:
    "jsonMarshal (GMap (OACreateResponseFormat jsonName jsonSchema)) =
       Some (JObj [(''json_schema'',
                      JObj [(''name'', JStr jsonName), (''schema'', JObj (sort_key fst js))]),
                   (''type'', JStr ''json_schema'')])"
    using assms(4) by (simp add: OACreateResponseFormat_def less_char_def less_eq_char_def)
  have nonempty: "OACreateResponseFormat jsonName jsonSchema \<noteq> []"
    by (simp add: OACreateResponseFormat_def)
  show ?thesis
    using assms(1-3) nonempty
    by (simp add: OpenAISendMessage_def chatExchange_def marshalReqBody_def omitemptyDyn_def
          omitemptyMap_def envelope Let_def del: jsonMarshal.simps split: sum.splits)
qed

theorem response_format_is_the_envelope_witness:
  "exlog (snd (OpenAISendMessage spyEnv keyedClient (Some userHello) True
                 (Some (OACreateResponseFormat ''WeatherResponse'' weatherSchema)) False None
                 world0)) =
     [\<lparr>ex_client = \<lparr>Timeout = 60\<rparr>,
       ex_request =
         \<lparr>rq_Method = ''POST'', rq_URL = ''https://api.openai.com/v1/chat/completions'',
          rq_Header = [(''Content-Type'', ''application/json''),
                       (''Authorization'', ''Bearer sk-test'')],
          rq_Body = JsonBody (JObj
            [(''messages'',
                JArr [JObj [(''role'', JStr ''user''),
                            (''content'', JStr ''What is the weather like today?'')]]),
             (''model'', JStr ''gpt-4o-mini''),
             (''response_format'',
                JObj [(''json_schema'',
                         JObj [(''name'', JStr ''WeatherResponse''),
                               (''schema'',
                                  JObj [(''condition'', JObj [(''type'', JStr ''string'')]),
                                        (''temperature'',
                                           JObj [(''type'', JStr ''string'')])])]),
                      (''type'', JStr ''json_schema'')])])\<rparr>\<rparr>]"
  using response_format_is_the_envelope
          [where c = keyedClient and e = spyEnv and msgs = userHello
             and jm = "JArr [JObj [(''role'', JStr ''user''),
                                   (''content'', JStr ''What is the weather like today?'')]]"
             and jsonSchema = weatherSchema
             and js = "[(''temperature'', JObj [(''type'', JStr ''string'')]),
                        (''condition'', JObj [(''type'', JStr ''string'')])]"
             and jsonName = "''WeatherResponse''" and req_body_custom = None and w = world0]
  by (simp add: keyedClient_sel spyEnv_sel jsonMarshal_userHello
        jsonMarshalMembers_weatherSchema world0_def requestHeader_def less_char_def
        less_eq_char_def)

text \<open>When the messages or the schema cannot be serialised, nothing is sent.\<close>

lemma chatExchange_marshal_fails:
  "marshalReqBody reqBody = None \<Longrightarrow>
   chatExchange e c reqBody w = (Failed (RequestError ''Failed to marshal request body''), w)"
  by (simp add: chatExchange_def)

subsection \<open>Chat completion: the write through the custom request pointer\<close>

lemma chatExchange_heap: "heap (snd (chatExchange e c reqBody w)) = heap w"
  by (simp add: chatExchange_def Let_def split: option.splits sum.splits)

text \<open>
  Claim C10. Call \<open>OpenAISendMessage\<close> with \<open>with_custom_reqbody = true\<close>,
  \<open>with_format_response = true\<close>, a format envelope \<open>fr\<close> and a pointer \<open>p\<close> to the caller's
  request struct, past the guards (the key is not empty, the struct's \<open>Messages\<close> is not
  nil). Then
  \<^item> the call is the exchange on the struct with \<open>ResponseFormat\<close> overwritten by \<open>fr\<close>, so
    the overwritten struct is what gets serialised;
  \<^item> in the heap the call returns, whatever the environment does (the request succeeds
    or fails at any later step), address \<open>p\<close> holds the caller's struct with
    \<open>ResponseFormat\<close> replaced by \<open>fr\<close> and every other field as it was, and every other
    address holds what it held.
\<close>

theorem custom_body_ResponseFormat_overwritten:
  assumes "apiKey c \<noteq> ''''" and "rb_Messages (heap w p) \<noteq> GNil"
  shows
    "OpenAISendMessage e c content True (Some fr) True (Some p) w =
       chatExchange e c ((heap w p)\<lparr>rb_ResponseFormat := fr\<rparr>)
         (w\<lparr>heap := (heap w)(p := (heap w p)\<lparr>rb_ResponseFormat := fr\<rparr>)\<rparr>)
   \<and> heap (snd (OpenAISendMessage e c content True (Some fr) True (Some p) w)) =
       (heap w)(p := (heap w p)\<lparr>rb_ResponseFormat := fr\<rparr>)"
proof -
  have call:
    "OpenAISendMessage e c content True (Some fr) True (Some p) w =
       chatExchange e c ((heap w p)\<lparr>rb_ResponseFormat := fr\<rparr>)
         (w\<lparr>heap := (heap w)(p := (heap w p)\<lparr>rb_ResponseFormat := fr\<rparr>)\<rparr>)"
    using assms by (simp add: OpenAISendMessage_def Let_def)
  show ?thesis
    unfolding call by (simp add: chatExchange_heap)
qed

theorem custom_body_ResponseFormat_overwritten_witness:
  "heap (snd (OpenAISendMessage spyEnv keyedClient None True
                (Some (OACreateResponseFormat ''WeatherResponse'' weatherSchema)) True (Some 1)
                world0)) =
     (heap world0)
       (1 := customReqBody
               \<lparr>rb_ResponseFormat := OACreateResponseFormat ''WeatherResponse'' weatherSchema\<rparr>)
   \<and> heap (snd (OpenAISendMessage (spyEnv\<lparr>httpDo := (\<lambda>client req. Inl ''timeout'')\<rparr>)
                keyedClient None True
                (Some (OACreateResponseFormat ''WeatherResponse'' weatherSchema)) True (Some 1)
                world0)) =
     (heap world0)
       (1 := customReqBody
               \<lparr>rb_ResponseFormat := OACreateResponseFormat ''WeatherResponse'' weatherSchema\<rparr>)
   \<and> rb_ResponseFormat (heap world0 1) = [(''type'', GStr ''text'')]"
proof -
  let ?fr = "OACreateResponseFormat ''WeatherResponse'' weatherSchema"
  have key: "apiKey keyedClient \<noteq> ''''"
    by (simp add: keyedClient_sel)
  have held: "heap world0 1 = customReqBody"
    by (simp add: world0_def)
  have msgs: "rb_Messages (heap world0 1) \<noteq> GNil"
    unfolding held by (simp add: customReqBody_def messagesValue_def)
  have before: "rb_ResponseFormat (heap world0 1) = [(''type'', GStr ''text'')]"
    unfolding held by (simp add: customReqBody_def)
  have after:
    "heap (snd (OpenAISendMessage e keyedClient None True (Some ?fr) True (Some 1) world0)) =
       (heap world0)(1 := customReqBody\<lparr>rb_ResponseFormat := ?fr\<rparr>)" for e
    using custom_body_ResponseFormat_overwritten [OF key msgs, of e None ?fr]
    unfolding held by (rule conjunct2)
  show ?thesis
    using after before by simp
qed

subsection \<open>Image generation: quality and style\<close>

lemma img_N_in_range:
  "(case img_N r of None \<Rightarrow> True | Some n \<Rightarrow> 1 \<le> n \<and> n \<le> 10) \<Longrightarrow>
   \<not> (case img_N r of None \<Rightarrow> False | Some n \<Rightarrow> n < 1 \<or> n > 10)"
  by (cases "img_N r") auto

lemma img_Quality_allowed:
  "img_Quality r \<in> {None, Some ''standard'', Some ''hd''} \<Longrightarrow>
   \<not> (case img_Quality r of None \<Rightarrow> False | Some q \<Rightarrow> q \<noteq> ''standard'' \<and> q \<noteq> ''hd'')"
  by (cases "img_Quality r") auto

lemma img_Style_allowed:
  "img_Style r \<in> {None, Some ''vivid'', Some ''natural''} \<Longrightarrow>
   \<not> (case img_Style r of None \<Rightarrow> False | Some s \<Rightarrow> s \<noteq> ''vivid'' \<and> s \<noteq> ''natural'')"
  by (cases "img_Style r") auto

lemma imageInputChecker_dalle2_quality:
  assumes "\<not> (case img_N r of None \<Rightarrow> False | Some n \<Rightarrow> n < 1 \<or> n > 10)"
    and "img_Model r = ''dall-e-2''" and "img_Quality r \<noteq> None"
  shows "imageInputChecker r =
           Some (InvalidArgument ''Quality is only supported for dall-e-3 model'')"
  using assms by (simp add: imageInputChecker_def)

lemma imageInputChecker_dalle2_style:
  assumes "\<not> (case img_N r of None \<Rightarrow> False | Some n \<Rightarrow> n < 1 \<or> n > 10)"
    and "img_Model r = ''dall-e-2''" and "img_Quality r = None" and "img_Style r \<noteq> None"
  shows "imageInputChecker r =
           Some (InvalidArgument ''Style is only supported for dall-e-3 model'')"
  using assms by (simp add: imageInputChecker_def)

lemma imageInputChecker_dalle3_quality:
  assumes "\<not> (case img_N r of None \<Rightarrow> False | Some n \<Rightarrow> n < 1 \<or> n > 10)"
    and "img_Model r = ''dall-e-3''"
    and "img_Quality r \<notin> {None, Some ''standard'', Some ''hd''}"
  shows "imageInputChecker r = Some (InvalidArgument ''Quality must be standard or hd'')"
proof -
  obtain q where q: "img_Quality r = Some q" "q \<noteq> ''standard''" "q \<noteq> ''hd''"
    using assms(3) by (cases "img_Quality r") auto
  show ?thesis
    using assms(1,2) q by (simp add: imageInputChecker_def)
qed

lemma imageInputChecker_dalle3_style:
  assumes "\<not> (case img_N r of None \<Rightarrow> False | Some n \<Rightarrow> n < 1 \<or> n > 10)"
    and "img_Model r = ''dall-e-3''"
    and "img_Quality r \<in> {None, Some ''standard'', Some ''hd''}"
    and "img_Style r \<notin> {None, Some ''vivid'', Some ''natural''}"
  shows "imageInputChecker r = Some (InvalidArgument ''Style must be vivid or natural'')"
proof -
  obtain s where s: "img_Style r = Some s" "s \<noteq> ''vivid''" "s \<noteq> ''natural''"
    using assms(4) by (cases "img_Style r") auto
  show ?thesis
    using assms(1,2) img_Quality_allowed [OF assms(3)] s by (simp add: imageInputChecker_def)
qed

lemma imageInputChecker_dalle3_pass:
  assumes "\<not> (case img_N r of None \<Rightarrow> False | Some n \<Rightarrow> n < 1 \<or> n > 10)"
    and "img_Model r = ''dall-e-3''"
    and "img_Quality r \<in> {None, Some ''standard'', Some ''hd''}"
    and "img_Style r \<in> {None, Some ''vivid'', Some ''natural''}"
  shows "imageInputChecker r =
           (if img_ResponseFormat r \<in> {None, Some ''url'', Some ''b64_json''} then None
            else Some (InvalidArgument ''ResponseFormat must be url or b64_json''))"
proof -
  have rf:
    "(case img_ResponseFormat r of None \<Rightarrow> False | Some f \<Rightarrow> f \<noteq> ''url'' \<and> f \<noteq> ''b64_json'') =
     (img_ResponseFormat r \<notin> {None, Some ''url'', Some ''b64_json''})"
    by (cases "img_ResponseFormat r") auto
  show ?thesis
    using assms(1,2) img_Quality_allowed [OF assms(3)] img_Style_allowed [OF assms(4)]
    by (simp add: imageInputChecker_def rf del: insert_iff)
qed

lemma OpenAICreateImageDallE_checker_fails:
  "imageInputChecker r = Some err \<Longrightarrow>
   OpenAICreateImageDallE e c (Some r) lg = (Failed err, lg)"
  by (simp add: OpenAICreateImageDallE_def)

text \<open>
  Claim C8, amended. For every image request whose count \<open>N\<close> is absent or within
  \<open>[1, 10]\<close>:
  \<^item> with model \<open>dall-e-2\<close>, a quality or a style that is not nil makes the operation fail
    with an \<open>InvalidArgument\<close> (\<open>Quality is only supported for dall-e-3 model\<close>, or the same
    for the style when the quality is nil), the log of exchanges unchanged;
  \<^item> with model \<open>dall-e-3\<close>, a quality that is nil, \<open>standard\<close> or \<open>hd\<close> and a style that is
    nil, \<open>vivid\<close> or \<open>natural\<close> pass the quality and style checks: the input checks as a
    whole then pass exactly when the response format is nil, \<open>url\<close> or \<open>b64_json\<close>;
  \<^item> with model \<open>dall-e-3\<close>, any other quality or style makes the operation fail with an
    \<open>InvalidArgument\<close> (\<open>Quality must be standard or hd\<close>, \<open>Style must be vivid or natural\<close>),
    the log unchanged.
\<close>

theorem image_quality_style_checks:
  assumes "case img_N r of None \<Rightarrow> True | Some n \<Rightarrow> 1 \<le> n \<and> n \<le> 10"
  shows
   "(img_Model r = ''dall-e-2'' \<and> (img_Quality r \<noteq> None \<or> img_Style r \<noteq> None) \<longrightarrow>
       OpenAICreateImageDallE e c (Some r) lg =
         (Failed (InvalidArgument
            (if img_Quality r \<noteq> None then ''Quality is only supported for dall-e-3 model''
             else ''Style is only supported for dall-e-3 model'')), lg))
  \<and> (img_Model r = ''dall-e-3'' \<and>
      img_Quality r \<in> {None, Some ''standard'', Some ''hd''} \<and>
      img_Style r \<in> {None, Some ''vivid'', Some ''natural''} \<longrightarrow>
       imageInputChecker r =
         (if img_ResponseFormat r \<in> {None, Some ''url'', Some ''b64_json''} then None
          else Some (InvalidArgument ''ResponseFormat must be url or b64_json'')))
  \<and> (img_Model r = ''dall-e-3'' \<and>
      (img_Quality r \<notin> {None, Some ''standard'', Some ''hd''} \<or>
       img_Style r \<notin> {None, Some ''vivid'', Some ''natural''}) \<longrightarrow>
       OpenAICreateImageDallE e c (Some r) lg =
         (Failed (InvalidArgument
            (if img_Quality r \<notin> {None, Some ''standard'', Some ''hd''}
             then ''Quality must be standard or hd'' else ''Style must be vivid or natural'')), lg))"
proof -
  note n = img_N_in_range [OF assms]
  have legacy:
    "img_Model r = ''dall-e-2'' \<and> (img_Quality r \<noteq> None \<or> img_Style r \<noteq> None) \<longrightarrow>
       OpenAICreateImageDallE e c (Some r) lg =
         (Failed (InvalidArgument
            (if img_Quality r \<noteq> None then ''Quality is only supported for dall-e-3 model''
             else ''Style is only supported for dall-e-3 model'')), lg)"
  proof (cases "img_Quality r = None")
    case True
    then show ?thesis
      using imageInputChecker_dalle2_style [OF n] OpenAICreateImageDallE_checker_fails
      by fastforce
  next
    case False
    then show ?thesis
      using imageInputChecker_dalle2_quality [OF n] OpenAICreateImageDallE_checker_fails
      by fastforce
  qed
  have accepted:
    "img_Model r = ''dall-e-3'' \<and>
      img_Quality r \<in> {None, Some ''standard'', Some ''hd''} \<and>
      img_Style r \<in> {None, Some ''vivid'', Some ''natural''} \<longrightarrow>
       imageInputChecker r =
         (if img_ResponseFormat r \<in> {None, Some ''url'', Some ''b64_json''} then None
          else Some (InvalidArgument ''ResponseFormat must be url or b64_json''))"
    using imageInputChecker_dalle3_pass [OF n] by blast
  have rejected:
    "img_Model r = ''dall-e-3'' \<and>
      (img_Quality r \<notin> {None, Some ''standard'', Some ''hd''} \<or>
       img_Style r \<notin> {None, Some ''vivid'', Some ''natural''}) \<longrightarrow>
       OpenAICreateImageDallE e c (Some r) lg =
         (Failed (InvalidArgument
            (if img_Quality r \<notin> {None, Some ''standard'', Some ''hd''}
             then ''Quality must be standard or hd'' else ''Style must be vivid or natural'')), lg)"
  proof (cases "img_Quality r \<in> {None, Some ''standard'', Some ''hd''}")
    case True
    then show ?thesis
      using imageInputChecker_dalle3_style [OF n _ True] OpenAICreateImageDallE_checker_fails
      by presburger
  next
    case False
    then show ?thesis
      using imageInputChecker_dalle3_quality [OF n _ False] OpenAICreateImageDallE_checker_fails
      by presburger
  qed
  from legacy accepted rejected show ?thesis
    by (intro conjI)
qed

theorem image_quality_style_checks_witness:
  "OpenAICreateImageDallE spyEnv keyedClient
     (Some (imageReq ''dall-e-2'' None (Some ''hd'') None)) [] =
     (Failed (InvalidArgument ''Quality is only supported for dall-e-3 model''), [])
   \<and> OpenAICreateImageDallE spyEnv keyedClient
     (Some (imageReq ''dall-e-2'' (Some 2) None (Some ''vivid''))) [] =
     (Failed (InvalidArgument ''Style is only supported for dall-e-3 model''), [])
   \<and> imageInputChecker (imageReq ''dall-e-3'' (Some 3) (Some ''hd'') (Some ''vivid'')) = None
   \<and> OpenAICreateImageDallE spyEnv keyedClient
     (Some (imageReq ''dall-e-3'' None (Some ''ultra'') None)) [] =
     (Failed (InvalidArgument ''Quality must be standard or hd''), [])
   \<and> OpenAICreateImageDallE spyEnv keyedClient
     (Some (imageReq ''dall-e-3'' None (Some ''standard'') (Some ''anime''))) [] =
     (Failed (InvalidArgument ''Style must be vivid or natural''), [])"
  using image_quality_style_checks
          [of "imageReq ''dall-e-2'' None (Some ''hd'') None" spyEnv keyedClient "[]"]
        image_quality_style_checks
          [of "imageReq ''dall-e-2'' (Some 2) None (Some ''vivid'')" spyEnv keyedClient "[]"]
        image_quality_style_checks
          [of "imageReq ''dall-e-3'' (Some 3) (Some ''hd'') (Some ''vivid'')" spyEnv keyedClient "[]"]
        image_quality_style_checks
          [of "imageReq ''dall-e-3'' None (Some ''ultra'') None" spyEnv keyedClient "[]"]
        image_quality_style_checks
          [of "imageReq ''dall-e-3'' None (Some ''standard'') (Some ''anime'')" spyEnv keyedClient
              "[]"]
  by (simp add: imageReq_def)

text \<open>
  Claim C8 as stated fails when the count is out of range. With model \<open>dall-e-2\<close>, count 0
  and quality \<open>hd\<close> the operation fails with \<open>N must be between 1 and 10\<close>, an \<open>OutOfRange\<close>
  and not an \<open>InvalidArgument\<close>: the count is checked before the quality. With model
  \<open>dall-e-3\<close>, count 11, quality \<open>hd\<close> and style \<open>vivid\<close> the input checks do not pass.
\<close>

theorem image_quality_style_counterexample:
  "OpenAICreateImageDallE spyEnv keyedClient
     (Some (imageReq ''dall-e-2'' (Some 0) (Some ''hd'') None)) [] =
     (Failed (OutOfRange ''N must be between 1 and 10''), [])
   \<and> imageInputChecker (imageReq ''dall-e-3'' (Some 11) (Some ''hd'') (Some ''vivid'')) =
       Some (OutOfRange ''N must be between 1 and 10'')"
  by (simp add: OpenAICreateImageDallE_def imageInputChecker_def imageReq_def)

end
